theory Spec2Isabelle
  imports Complex_Main "HOL-Library.Word" "HOL-Library.AList"
begin

section \<open>The regression harness of graminelibos (python/graminelibos/regression.py)\<close>

text \<open>
  The harness launches a binary in a process group of its own, waits for it with a
  bound, kills the group when the bound passes, prints what the binary wrote and turns
  the exit status into a result or an exception. The model is a shallow embedding:
  every method of \<open>RegressionTestCase\<close> that the properties below are about is a HOL
  function from the outside world (the file system, the process that \<open>Popen\<close> starts)
  to the list of actions the method performs on that world, in order, and its result
  (the value returned, or the exception raised).
\<close>

subsection \<open>Bytes, text and exceptions\<close>

type_synonym byte = "8 word"

text \<open>Python \<open>bytes\<close>: what the pipes deliver.\<close>

type_synonym bytes = "byte list"

text \<open>Python \<open>str\<close>: a sequence of Unicode code points.\<close>

type_synonym str = "nat list"

text \<open>
  The exceptions that leave the harness. \<open>AssertionError\<close> is what \<open>self.fail\<close> and
  \<open>self.assertEqual\<close> raise (unittest's \<open>failureException\<close>); its argument is the
  message the harness passes. \<open>CalledProcessError\<close> carries \<open>returncode\<close>, \<open>cmd\<close>,
  \<open>output\<close> and \<open>stderr\<close>. \<open>OSError\<close> is a failure of \<open>Popen\<close> to start the
  process, with the operating system's error number. \<open>TimeoutExpired\<close> is raised by
  \<open>communicate\<close> and caught by the harness.
\<close>

datatype error =
    AssertionError string
  | CalledProcessError int "string list" bytes bytes
  | UnicodeDecodeError
  | ValueError string
  | TypeError string
  | OSError nat
  | TimeoutExpired

subsection \<open>\<open>bytes.decode\<close>: UTF-8 with an error handler\<close>

text \<open>
  \<open>stdout.decode()\<close> decodes UTF-8 with the handler \<open>strict\<close>;
  \<open>stdout.decode(errors='surrogateescape')\<close> uses the handler of PEP 383.
\<close>

datatype errors = Strict | SurrogateEscape

text \<open>
  One step of the decoder at the head of the input: a code point and the number of
  bytes it took, or the length of the byte range the decoder reports to the error
  handler (an invalid start byte, an invalid continuation byte after the bytes that
  were still acceptable, or input that ends inside a sequence).
\<close>

datatype utf8_step = Decoded nat nat | Invalid nat

definition is_continuation_byte :: "nat \<Rightarrow> bool" where
  "is_continuation_byte ch = (0x80 \<le> ch \<and> ch < 0xC0)"

fun utf8_scan :: "bytes \<Rightarrow> utf8_step" where
  "utf8_scan [] = Invalid 0"
| "utf8_scan (b # bs) =
    (let ch = unat b in
     if ch < 0x80 then Decoded ch 1
     else if ch < 0xE0 then
       (if ch < 0xC2 then Invalid 1
        else case bs of
          [] \<Rightarrow> Invalid 1
        | b2 # _ \<Rightarrow>
            let ch2 = unat b2 in
            if \<not> is_continuation_byte ch2 then Invalid 1
            else Decoded ((ch - 0xC0) * 0x40 + (ch2 - 0x80)) 2)
     else if ch < 0xF0 then
       (case bs of
          [] \<Rightarrow> Invalid 1
        | b2 # bs2 \<Rightarrow>
            let ch2 = unat b2 in
            if \<not> is_continuation_byte ch2 \<or> (if ch2 < 0xA0 then ch = 0xE0 else ch = 0xED)
            then Invalid 1
            else (case bs2 of
               [] \<Rightarrow> Invalid 2
             | b3 # _ \<Rightarrow>
                 let ch3 = unat b3 in
                 if \<not> is_continuation_byte ch3 then Invalid 2
                 else Decoded ((ch - 0xE0) * 0x1000 + (ch2 - 0x80) * 0x40 + (ch3 - 0x80)) 3))
     else if ch < 0xF5 then
       (case bs of
          [] \<Rightarrow> Invalid 1
        | b2 # bs2 \<Rightarrow>
            let ch2 = unat b2 in
            if \<not> is_continuation_byte ch2 \<or> (if ch2 < 0x90 then ch = 0xF0 else ch = 0xF4)
            then Invalid 1
            else (case bs2 of
               [] \<Rightarrow> Invalid 2
             | b3 # bs3 \<Rightarrow>
                 let ch3 = unat b3 in
                 if \<not> is_continuation_byte ch3 then Invalid 2
                 else (case bs3 of
                    [] \<Rightarrow> Invalid 3
                  | b4 # _ \<Rightarrow>
                      let ch4 = unat b4 in
                      if \<not> is_continuation_byte ch4 then Invalid 3
                      else Decoded ((ch - 0xF0) * 0x40000 + (ch2 - 0x80) * 0x1000
                                    + (ch3 - 0x80) * 0x40 + (ch4 - 0x80)) 4)))
     else Invalid 1)"

text \<open>
  The handler \<open>surrogateescape\<close> on the reported range: every byte becomes the lone
  surrogate U+DC00 + byte, up to four bytes, stopping at a byte below 128, which it
  refuses to escape. It answers with the replacement and the number of bytes it
  consumed; when it consumed none, the decoding error is raised after all.
\<close>

definition surrogateescape_errors :: "bytes \<Rightarrow> (str \<times> nat) option" where
  "surrogateescape_errors rng =
    (let escaped = takeWhile (\<lambda>b. \<not> unat b < 128) (take 4 rng) in
     if escaped = [] then None
     else Some (map (\<lambda>b. 0xDC00 + unat b) escaped, length escaped))"

lemma utf8_scan_progress: "utf8_scan (b # bs) = Decoded cp n \<Longrightarrow> 0 < n"
  unfolding utf8_scan.simps Let_def
  by (simp split: if_split_asm list.split_asm)

lemma surrogateescape_progress: "surrogateescape_errors rng = Some (rep, k) \<Longrightarrow> 0 < k"
  by (auto simp: surrogateescape_errors_def Let_def split: if_splits)

declare utf8_scan.simps [simp del]

function decode :: "errors \<Rightarrow> bytes \<Rightarrow> error + str" where
  "decode handler bs =
    (if bs = [] then Inr []
     else case utf8_scan bs of
       Decoded cp n \<Rightarrow>
         (case decode handler (drop n bs) of
            Inl e \<Rightarrow> Inl e
          | Inr s \<Rightarrow> Inr (cp # s))
     | Invalid n \<Rightarrow>
         (case handler of
            Strict \<Rightarrow> Inl UnicodeDecodeError
          | SurrogateEscape \<Rightarrow>
              (case surrogateescape_errors (take n bs) of
                 None \<Rightarrow> Inl UnicodeDecodeError
               | Some (rep, k) \<Rightarrow>
                   (case decode handler (drop k bs) of
                      Inl e \<Rightarrow> Inl e
                    | Inr s \<Rightarrow> Inr (rep @ s)))))"
  by pat_completeness auto
termination
proof (relation "measure (\<lambda>(handler, bs). length bs)")
  show "wf (measure (\<lambda>(handler, bs). length bs))"
    by simp
next
  fix handler :: errors and bs :: bytes and x cp n
  assume "bs \<noteq> []" "utf8_scan bs = Decoded cp n"
  then have "0 < n"
    using utf8_scan_progress [of "hd bs" "tl bs" cp n] by simp
  with \<open>bs \<noteq> []\<close> show "((handler, drop n bs), (handler, bs)) \<in> measure (\<lambda>(handler, bs). length bs)"
    by simp
next
  fix handler :: errors and bs :: bytes and n x rep k
  assume "bs \<noteq> []" "surrogateescape_errors (take n bs) = Some x" "(rep, k) = x"
  then have "0 < k"
    by (auto dest: surrogateescape_progress)
  with \<open>bs \<noteq> []\<close> show "((handler, drop k bs), (handler, bs)) \<in> measure (\<lambda>(handler, bs). length bs)"
    by simp
qed

declare decode.simps [simp del]

subsection \<open>\<open>str.format\<close> of an integer\<close>

function str_nat :: "nat \<Rightarrow> string" where
  "str_nat n =
    (if n < 10 then [''0123456789'' ! n]
     else str_nat (n div 10) @ [''0123456789'' ! (n mod 10)])"
  by pat_completeness auto
termination
  by (relation "measure id") auto

declare str_nat.simps [simp del]

definition str_int :: "int \<Rightarrow> string" where
  "str_int i = (if i < 0 then CHR ''-'' # str_nat (nat (- i)) else str_nat (nat i))"

subsection \<open>The world outside the harness\<close>

text \<open>
  What a started process does, as far as \<open>communicate\<close> can tell: it exits after some
  time (seconds; the moment at which the process is gone and both pipes are at their
  end) with an exit status, having written some bytes to its standard output and to its
  standard error; or it never does. The status is negative when a signal ended the
  process, as \<open>Popen.returncode\<close> reports it.
\<close>

datatype lifetime = Exits real int bytes bytes | Never_exits

text \<open>
  A \<open>subprocess.Popen\<close> object: \<open>returncode\<close> is \<open>None\<close> until \<open>communicate\<close> has
  seen the process exit.
\<close>

record popen =
  pid :: nat
  returncode :: "int option"
  life :: lifetime

type_synonym environ = "(string \<times> string) list"

text \<open>
  The keyword arguments that callers forward to \<open>Popen\<close> through \<open>**kwds\<close>.
  (\<open>stdout\<close>, \<open>stderr\<close> and \<open>preexec_fn\<close> are fixed by the harness.)
\<close>

record kwds =
  kw_env :: "environ option"
  kw_cwd :: "string option"

text \<open>
  The world: the module constant \<open>HAS_SGX\<close>; \<open>str\<close> of the path
  \<open>pathlib.Path(graminelibos._CONFIG_PKGLIBDIR)\<close>, a constant of the package that this
  file does not define; which paths exist; \<open>os.environ\<close>; and what the operating system
  does when asked to start a process with an argument vector, an environment and a
  working directory: it refuses with an error number, or a process with an identifier
  and a lifetime runs.
\<close>

record world =
  HAS_SGX :: bool
  CONFIG_PKGLIBDIR :: string
  path_exists :: "string \<Rightarrow> bool"
  os_environ :: environ
  spawn :: "string list \<Rightarrow> environ option \<Rightarrow> string option \<Rightarrow> nat + nat \<times> lifetime"

text \<open>
  What the harness does to the world, in order. \<open>Popen\<close> is the call that creates the
  child with both output streams piped and \<open>preexec_fn=os.setpgrp\<close>, which makes the
  child the leader of a new process group whose identifier is the child's \<open>pid\<close>.
  \<open>Killpg\<close> signals a whole process group, \<open>Kill\<close> a single process. \<open>Stdout_write\<close>
  and \<open>Stderr_write\<close> are \<open>sys.stdout.write\<close> and \<open>sys.stderr.write\<close> of the harness's
  own process.
\<close>

datatype signal = SIGTERM | SIGKILL

datatype event =
    Path_exists string
  | Popen "string list" "environ option" "string option"
  | Communicate nat int
  | Killpg nat signal
  | Kill nat signal
  | Stdout_write str
  | Stderr_write str

text \<open>A run of a method: the events it caused, and the value it returned or the exception it raised.\<close>

type_synonym 'a run = "event list \<times> (error + 'a)"

subsection \<open>\<open>RegressionTestCase\<close>\<close>

definition DEFAULT_TIMEOUT :: "world \<Rightarrow> int" where
  "DEFAULT_TIMEOUT w = (if HAS_SGX w then 20 else 10)"

text \<open>\<open>pathlib\<close>'s \<open>/\<close> with a plain name on the right, as a string.\<close>

definition pal_path :: "world \<Rightarrow> string" where
  "pal_path w = CONFIG_PKGLIBDIR w @ ''/'' @ (if HAS_SGX w then ''sgx'' else ''direct'')"

definition libpal_path :: "world \<Rightarrow> string" where
  "libpal_path w = pal_path w @ ''/libpal.so''"

definition loader_path :: "world \<Rightarrow> string" where
  "loader_path w = pal_path w @ ''/loader''"

text \<open>
  \<open>process.communicate(timeout=timeout)\<close>: both streams in full and the exit status
  stored in the object when the process is gone by the deadline (the deadline itself
  included: \<open>subprocess\<close> raises once the clock is past it), \<open>TimeoutExpired\<close> otherwise.
\<close>

definition communicate :: "popen \<Rightarrow> int \<Rightarrow> error + popen \<times> bytes \<times> bytes" where
  "communicate process timeout =
    (case life process of
       Exits d rc out err \<Rightarrow>
         if d \<le> real_of_int timeout
         then Inr (process\<lparr>returncode := Some rc\<rparr>, out, err)
         else Inl TimeoutExpired
     | Never_exits \<Rightarrow> Inl TimeoutExpired)"

definition print_output :: "bytes \<Rightarrow> bytes \<Rightarrow> unit run" where
  "print_output stdout stderr =
    (case decode SurrogateEscape stdout of
       Inl e \<Rightarrow> ([], Inl e)
     | Inr out \<Rightarrow>
         (case decode SurrogateEscape stderr of
            Inl e \<Rightarrow> ([Stdout_write out], Inl e)
          | Inr err \<Rightarrow> ([Stdout_write out, Stderr_write err], Inr ())))"

definition run_binary ::
  "world \<Rightarrow> string list \<Rightarrow> int option \<Rightarrow> string list option \<Rightarrow> kwds \<Rightarrow> (str \<times> str) run" where
  "run_binary w args timeout prefix kwds =
    (let timeout = (case timeout of Some t \<Rightarrow> max (DEFAULT_TIMEOUT w) t
                                  | None \<Rightarrow> DEFAULT_TIMEOUT w) in
     if \<not> path_exists w (loader_path w) then
       ([Path_exists (loader_path w)],
        Inl (AssertionError (''loader ('' @ loader_path w @ '') not found'')))
     else if \<not> path_exists w (libpal_path w) then
       ([Path_exists (loader_path w), Path_exists (libpal_path w)],
        Inl (AssertionError (''libpal ('' @ libpal_path w @ '') not found'')))
     else
       let prefix = (case prefix of None \<Rightarrow> [] | Some p \<Rightarrow> p);
           argv = prefix @ [loader_path w, libpal_path w, ''init''] @ args;
           started = [Path_exists (loader_path w), Path_exists (libpal_path w),
                      Popen argv (kw_env kwds) (kw_cwd kwds)]
       in case spawn w argv (kw_env kwds) (kw_cwd kwds) of
         Inl errno \<Rightarrow> (started, Inl (OSError errno))
       | Inr (p, l) \<Rightarrow>
           let process = \<lparr>pid = p, returncode = None, life = l\<rparr>;
               waited = started @ [Communicate (pid process) timeout]
           in case communicate process timeout of
             Inl e \<Rightarrow>
               if e = TimeoutExpired then
                 (waited @ [Killpg (pid process) SIGKILL],
                  Inl (AssertionError (''timeout ('' @ str_int timeout @ '' s) expired'')))
               else (waited, Inl e)
           | Inr (process, stdout, stderr) \<Rightarrow>
               (case print_output stdout stderr of
                  (printed, Inl e) \<Rightarrow> (waited @ printed, Inl e)
                | (printed, Inr _) \<Rightarrow>
                    if returncode process \<noteq> None \<and> returncode process \<noteq> Some 0 then
                      (waited @ printed,
                       Inl (CalledProcessError (the (returncode process)) args stdout stderr))
                    else
                      (case decode Strict stdout of
                         Inl e \<Rightarrow> (waited @ printed, Inl e)
                       | Inr out \<Rightarrow>
                           (case decode Strict stderr of
                              Inl e \<Rightarrow> (waited @ printed, Inl e)
                            | Inr err \<Rightarrow> (waited @ printed, Inr (out, err))))))"

definition run_native_binary ::
  "world \<Rightarrow> string list \<Rightarrow> int option \<Rightarrow> string option \<Rightarrow> kwds \<Rightarrow> (str \<times> str) run" where
  "run_native_binary w args timeout libpath kwds =
    (let timeout = (case timeout of Some t \<Rightarrow> max (DEFAULT_TIMEOUT w) t
                                  | None \<Rightarrow> DEFAULT_TIMEOUT w);
         my_env = (case libpath of
                     None \<Rightarrow> os_environ w
                   | Some l \<Rightarrow> AList.update ''LD_LIBRARY_PATH'' l (os_environ w))
     in if kw_env kwds \<noteq> None then ([], Inl (TypeError ''env''))
     else
       let started = [Popen args (Some my_env) (kw_cwd kwds)]
       in case spawn w args (Some my_env) (kw_cwd kwds) of
         Inl errno \<Rightarrow> (started, Inl (OSError errno))
       | Inr (p, l) \<Rightarrow>
           let process = \<lparr>pid = p, returncode = None, life = l\<rparr>;
               waited = started @ [Communicate (pid process) timeout]
           in case communicate process timeout of
             Inl e \<Rightarrow>
               if e = TimeoutExpired then
                 (waited @ [Killpg (pid process) SIGKILL],
                  Inl (AssertionError (''timeout ('' @ str_int timeout @ '' s) expired'')))
               else (waited, Inl e)
           | Inr (process, stdout, stderr) \<Rightarrow>
               (case print_output stdout stderr of
                  (printed, Inl e) \<Rightarrow> (waited @ printed, Inl e)
                | (printed, Inr _) \<Rightarrow>
                    if returncode process \<noteq> None \<and> returncode process \<noteq> Some 0 then
                      (waited @ printed,
                       Inl (CalledProcessError (the (returncode process)) args stdout stderr))
                    else
                      (case decode Strict stdout of
                         Inl e \<Rightarrow> (waited @ printed, Inl e)
                       | Inr out \<Rightarrow>
                           (case decode Strict stderr of
                              Inl e \<Rightarrow> (waited @ printed, Inl e)
                            | Inr err \<Rightarrow> (waited @ printed, Inr (out, err))))))"

text \<open>
  The context manager \<open>expect_returncode\<close>, applied to the run of the body of its
  \<open>with\<close> block. When the expected code is zero the body does not run.
\<close>

definition expect_returncode :: "int \<Rightarrow> 'a run \<Rightarrow> unit run" where
  "expect_returncode expected body =
    (if expected = 0 then ([], Inl (ValueError ''expected returncode should be nonzero''))
     else case body of
       (evs, Inr _) \<Rightarrow>
         (evs, Inl (AssertionError (''did not fail (expected '' @ str_int expected @ '')'')))
     | (evs, Inl e) \<Rightarrow>
         (case e of
            CalledProcessError rc cmd out err \<Rightarrow>
              if rc = expected then (evs, Inr ())
              else (evs, Inl (AssertionError (''failed with returncode '' @ str_int rc
                                @ '' (expected '' @ str_int expected @ '')'')))
          | _ \<Rightarrow> (evs, Inl e)))"

section \<open>Properties\<close>

subsection \<open>Vocabulary\<close>

text \<open>
  The bound that the specification calls the effective timeout: the larger of the
  default and the requested value; the default when none is requested.
\<close>

definition effective_timeout :: "world \<Rightarrow> int option \<Rightarrow> int" where
  "effective_timeout w requested =
    (case requested of None \<Rightarrow> DEFAULT_TIMEOUT w | Some t \<Rightarrow> max (DEFAULT_TIMEOUT w) t)"

text \<open>
  The argument vector of the specification's process argument contract:
  the debugger prefix, the loader, the library, \<open>init\<close>, the user's arguments.
\<close>

definition binary_argv :: "world \<Rightarrow> string list option \<Rightarrow> string list \<Rightarrow> string list" where
  "binary_argv w prefix args =
    (case prefix of None \<Rightarrow> [] | Some p \<Rightarrow> p) @ [loader_path w, libpal_path w, ''init''] @ args"

text \<open>The environment that \<open>run_native_binary\<close> hands to the child.\<close>

definition native_env :: "world \<Rightarrow> string option \<Rightarrow> environ" where
  "native_env w libpath =
    (case libpath of None \<Rightarrow> os_environ w
     | Some l \<Rightarrow> AList.update ''LD_LIBRARY_PATH'' l (os_environ w))"

text \<open>
  A supervised invocation: the call gets as far as a running target. For \<open>run_binary\<close>
  both artifacts exist and the operating system starts process \<open>p\<close> with lifetime \<open>l\<close>
  for the argument vector above; for \<open>run_native_binary\<close> the caller passes no \<open>env\<close>
  of its own and the operating system starts \<open>p\<close> for the caller's arguments.
\<close>

definition binary_starts ::
  "world \<Rightarrow> string list \<Rightarrow> string list option \<Rightarrow> kwds \<Rightarrow> nat \<Rightarrow> lifetime \<Rightarrow> bool" where
  "binary_starts w args prefix kwds p l =
    (path_exists w (loader_path w) \<and> path_exists w (libpal_path w) \<and>
     spawn w (binary_argv w prefix args) (kw_env kwds) (kw_cwd kwds) = Inr (p, l))"

definition native_starts ::
  "world \<Rightarrow> string list \<Rightarrow> string option \<Rightarrow> kwds \<Rightarrow> nat \<Rightarrow> lifetime \<Rightarrow> bool" where
  "native_starts w args libpath kwds p l =
    (kw_env kwds = None \<and>
     spawn w args (Some (native_env w libpath)) (kw_cwd kwds) = Inr (p, l))"

text \<open>The target is gone by the deadline \<open>t\<close>; otherwise the wait times out.\<close>

definition exits_by :: "lifetime \<Rightarrow> int \<Rightarrow> bool" where
  "exits_by l t = (case l of Exits d k out err \<Rightarrow> d \<le> real_of_int t | Never_exits \<Rightarrow> False)"

text \<open>Projections of a trace: the bounds waited for, the argument vectors started, the signals sent, the output forwarded.\<close>

fun waits :: "event list \<Rightarrow> int list" where
  "waits [] = []"
| "waits (Communicate p t # evs) = t # waits evs"
| "waits (e # evs) = waits evs"

fun popen_argvs :: "event list \<Rightarrow> string list list" where
  "popen_argvs [] = []"
| "popen_argvs (Popen argv env cwd # evs) = argv # popen_argvs evs"
| "popen_argvs (e # evs) = popen_argvs evs"

fun signals :: "event list \<Rightarrow> event list" where
  "signals [] = []"
| "signals (Killpg g s # evs) = Killpg g s # signals evs"
| "signals (Kill p s # evs) = Kill p s # signals evs"
| "signals (e # evs) = signals evs"

fun writes :: "event list \<Rightarrow> event list" where
  "writes [] = []"
| "writes (Stdout_write s # evs) = Stdout_write s # writes evs"
| "writes (Stderr_write s # evs) = Stderr_write s # writes evs"
| "writes (e # evs) = writes evs"

text \<open>What \<open>print_output\<close> shows for a captured stream, and what the harness returns for two.\<close>

definition shown :: "bytes \<Rightarrow> str" where
  "shown bs = (case decode SurrogateEscape bs of Inr s \<Rightarrow> s | Inl e \<Rightarrow> [])"

definition returned :: "bytes \<Rightarrow> bytes \<Rightarrow> error + str \<times> str" where
  "returned out err =
    (case decode Strict out of
       Inl e \<Rightarrow> Inl e
     | Inr so \<Rightarrow> (case decode Strict err of Inl e \<Rightarrow> Inl e | Inr se \<Rightarrow> Inr (so, se)))"

text \<open>The part of a run after the target has started, in closed form.\<close>

definition supervised :: "nat \<Rightarrow> lifetime \<Rightarrow> int \<Rightarrow> string list \<Rightarrow> (str \<times> str) run" where
  "supervised p l t args =
    (case l of
       Exits d k out err \<Rightarrow>
         if d \<le> real_of_int t then
           ([Communicate p t, Stdout_write (shown out), Stderr_write (shown err)],
            if k = 0 then returned out err else Inl (CalledProcessError k args out err))
         else
           ([Communicate p t, Killpg p SIGKILL],
            Inl (AssertionError (''timeout ('' @ str_int t @ '' s) expired'')))
     | Never_exits \<Rightarrow>
         ([Communicate p t, Killpg p SIGKILL],
          Inl (AssertionError (''timeout ('' @ str_int t @ '' s) expired''))))"

subsection \<open>The decoder\<close>

lemma utf8_scan_invalid: "utf8_scan (b # bs) = Invalid n \<Longrightarrow> 0 < n \<and> 128 \<le> unat b"
  unfolding utf8_scan.simps Let_def
  by (simp split: if_split_asm list.split_asm)

lemma surrogateescape_some:
  assumes "utf8_scan (b # bs) = Invalid n"
  shows "\<exists>rep k. surrogateescape_errors (take n (b # bs)) = Some (rep, k)"
proof -
  from assms have n: "0 < n" and b: "128 \<le> unat b"
    using utf8_scan_invalid by blast+
  from n obtain m where "n = Suc m" by (cases n) auto
  with b show ?thesis
    by (simp add: surrogateescape_errors_def Let_def)
qed

lemma decode_surrogateescape_total: "\<exists>s. decode SurrogateEscape bs = Inr s"
proof (induction bs rule: length_induct)
  case (1 bs)
  show ?case
  proof (cases bs)
    case Nil
    then show ?thesis by (simp add: decode.simps)
  next
    case (Cons b bs')
    show ?thesis
    proof (cases "utf8_scan bs")
      case (Decoded cp n)
      with Cons have "0 < n" using utf8_scan_progress by blast
      with Cons have "length (drop n bs) < length bs" by simp
      with 1 obtain s where "decode SurrogateEscape (drop n bs) = Inr s" by blast
      with Decoded Cons show ?thesis
        by (subst decode.simps) simp
    next
      case (Invalid n)
      with Cons obtain rep k where rk: "surrogateescape_errors (take n bs) = Some (rep, k)"
        using surrogateescape_some by blast
      then have "0 < k" by (rule surrogateescape_progress)
      with Cons have "length (drop k bs) < length bs" by simp
      with 1 obtain s where "decode SurrogateEscape (drop k bs) = Inr s" by blast
      with Invalid Cons rk show ?thesis
        by (subst decode.simps) simp
    qed
  qed
qed

lemma decode_shown: "decode SurrogateEscape bs = Inr (shown bs)"
  using decode_surrogateescape_total [of bs] by (auto simp: shown_def)

lemma decode_strict_surrogateescape:
  "decode Strict bs = Inr s \<Longrightarrow> decode SurrogateEscape bs = Inr s"
proof (induction bs arbitrary: s rule: length_induct)
  case (1 bs)
  show ?case
  proof (cases bs)
    case Nil
    with 1 show ?thesis by (simp add: decode.simps)
  next
    case (Cons b bs')
    show ?thesis
    proof (cases "utf8_scan bs")
      case (Decoded cp n)
      with Cons have "0 < n" using utf8_scan_progress by blast
      with Cons have len: "length (drop n bs) < length bs" by simp
      from 1(2) Decoded Cons obtain s' where s': "decode Strict (drop n bs) = Inr s'" "s = cp # s'"
        by (subst (asm) decode.simps) (auto split: sum.splits)
      with 1(1) len have "decode SurrogateEscape (drop n bs) = Inr s'" by blast
      with Decoded Cons s' show ?thesis
        by (subst decode.simps) simp
    next
      case (Invalid n)
      with 1(2) Cons show ?thesis
        by (subst (asm) decode.simps) simp
    qed
  qed
qed

lemma shown_strict: "decode Strict bs = Inr s \<Longrightarrow> shown bs = s"
  by (simp add: shown_def decode_strict_surrogateescape)

lemma decode_strict_error: "decode Strict bs = Inl e \<Longrightarrow> e = UnicodeDecodeError"
proof (induction bs rule: length_induct)
  case (1 bs)
  show ?case
  proof (cases bs)
    case Nil
    with 1 show ?thesis by (simp add: decode.simps)
  next
    case (Cons b bs')
    show ?thesis
    proof (cases "utf8_scan bs")
      case (Decoded cp n)
      with Cons have "0 < n" using utf8_scan_progress by blast
      with Cons have len: "length (drop n bs) < length bs" by simp
      from 1(2) Decoded Cons have "decode Strict (drop n bs) = Inl e"
        by (subst (asm) decode.simps) (auto split: sum.splits)
      with 1(1) len show ?thesis by blast
    next
      case (Invalid n)
      with 1(2) Cons show ?thesis
        by (subst (asm) decode.simps) simp
    qed
  qed
qed

subsection \<open>The two entry points in closed form\<close>

lemma print_output_shown:
  "print_output out err = ([Stdout_write (shown out), Stderr_write (shown err)], Inr ())"
  by (simp add: print_output_def decode_shown)

lemma communicate_cases:
  "communicate \<lparr>pid = p, returncode = None, life = l\<rparr> t =
    (case l of
       Exits d k out err \<Rightarrow>
         if d \<le> real_of_int t then Inr (\<lparr>pid = p, returncode = Some k, life = l\<rparr>, out, err)
         else Inl TimeoutExpired
     | Never_exits \<Rightarrow> Inl TimeoutExpired)"
  by (simp add: communicate_def split: lifetime.splits)

lemma run_binary_started:
  assumes "binary_starts w args prefix kwds p l"
  shows "run_binary w args timeout prefix kwds =
    ([Path_exists (loader_path w), Path_exists (libpal_path w),
      Popen (binary_argv w prefix args) (kw_env kwds) (kw_cwd kwds)]
       @ fst (supervised p l (effective_timeout w timeout) args),
     snd (supervised p l (effective_timeout w timeout) args))"
proof -
  from assms have ex: "path_exists w (loader_path w)" "path_exists w (libpal_path w)"
    and sp: "spawn w ((case prefix of None \<Rightarrow> [] | Some p \<Rightarrow> p)
              @ [loader_path w, libpal_path w, ''init''] @ args) (kw_env kwds) (kw_cwd kwds)
             = Inr (p, l)"
    by (simp_all add: binary_starts_def binary_argv_def)
  show ?thesis
  proof (cases l)
    case Never_exits
    with ex sp show ?thesis
      by (simp add: run_binary_def Let_def communicate_cases supervised_def
          effective_timeout_def binary_argv_def)
  next
    case (Exits d k out err)
    show ?thesis
    proof (cases "d \<le> real_of_int (effective_timeout w timeout)")
      case False
      with Exits ex sp show ?thesis
        by (simp add: run_binary_def Let_def communicate_cases supervised_def
            effective_timeout_def binary_argv_def)
    next
      case True
      with Exits ex sp show ?thesis
        by (simp add: run_binary_def Let_def communicate_cases supervised_def
            effective_timeout_def binary_argv_def print_output_shown returned_def
            split: sum.splits)
    qed
  qed
qed

lemma run_native_started:
  assumes "native_starts w args libpath kwds p l"
  shows "run_native_binary w args timeout libpath kwds =
    (Popen args (Some (native_env w libpath)) (kw_cwd kwds)
       # fst (supervised p l (effective_timeout w timeout) args),
     snd (supervised p l (effective_timeout w timeout) args))"
proof -
  from assms have ex: "kw_env kwds = None"
    and sp: "spawn w args (Some (case libpath of None \<Rightarrow> os_environ w
               | Some l \<Rightarrow> AList.update ''LD_LIBRARY_PATH'' l (os_environ w))) (kw_cwd kwds)
             = Inr (p, l)"
    by (simp_all add: native_starts_def native_env_def)
  show ?thesis
  proof (cases l)
    case Never_exits
    with ex sp show ?thesis
      by (simp add: run_native_binary_def Let_def communicate_cases supervised_def
          effective_timeout_def native_env_def)
  next
    case (Exits d k out err)
    show ?thesis
    proof (cases "d \<le> real_of_int (effective_timeout w timeout)")
      case False
      with Exits ex sp show ?thesis
        by (simp add: run_native_binary_def Let_def communicate_cases supervised_def
            effective_timeout_def native_env_def)
    next
      case True
      with Exits ex sp show ?thesis
        by (simp add: run_native_binary_def Let_def communicate_cases supervised_def
            effective_timeout_def native_env_def print_output_shown returned_def
            split: sum.splits)
    qed
  qed
qed

lemma run_binary_no_loader:
  "\<not> path_exists w (loader_path w) \<Longrightarrow>
    run_binary w args timeout prefix kwds =
      ([Path_exists (loader_path w)],
       Inl (AssertionError (''loader ('' @ loader_path w @ '') not found'')))"
  by (simp add: run_binary_def Let_def)

lemma run_binary_no_libpal:
  "path_exists w (loader_path w) \<Longrightarrow> \<not> path_exists w (libpal_path w) \<Longrightarrow>
    run_binary w args timeout prefix kwds =
      ([Path_exists (loader_path w), Path_exists (libpal_path w)],
       Inl (AssertionError (''libpal ('' @ libpal_path w @ '') not found'')))"
  by (simp add: run_binary_def Let_def)

lemma run_binary_refused:
  "path_exists w (loader_path w) \<Longrightarrow> path_exists w (libpal_path w) \<Longrightarrow>
   spawn w (binary_argv w prefix args) (kw_env kwds) (kw_cwd kwds) = Inl errno \<Longrightarrow>
    run_binary w args timeout prefix kwds =
      ([Path_exists (loader_path w), Path_exists (libpal_path w),
        Popen (binary_argv w prefix args) (kw_env kwds) (kw_cwd kwds)],
       Inl (OSError errno))"
  by (simp add: run_binary_def Let_def binary_argv_def)

lemma run_native_env_twice:
  "kw_env kwds \<noteq> None \<Longrightarrow>
    run_native_binary w args timeout libpath kwds = ([], Inl (TypeError ''env''))"
  by (simp add: run_native_binary_def Let_def)

lemma run_native_refused:
  "kw_env kwds = None \<Longrightarrow>
   spawn w args (Some (native_env w libpath)) (kw_cwd kwds) = Inl errno \<Longrightarrow>
    run_native_binary w args timeout libpath kwds =
      ([Popen args (Some (native_env w libpath)) (kw_cwd kwds)], Inl (OSError errno))"
  by (simp add: run_native_binary_def Let_def native_env_def)

lemma spawn_cases:
  obtains errno where "spawn w argv env cwd = Inl errno"
  | p l where "spawn w argv env cwd = Inr (p, l)"
  by (cases "spawn w argv env cwd") auto

lemma supervised_exited:
  "d \<le> real_of_int t \<Longrightarrow>
    supervised p (Exits d k out err) t args =
      ([Communicate p t, Stdout_write (shown out), Stderr_write (shown err)],
       if k = 0 then returned out err else Inl (CalledProcessError k args out err))"
  by (simp add: supervised_def)

lemma supervised_timeout:
  "\<not> exits_by l t \<Longrightarrow>
    supervised p l t args =
      ([Communicate p t, Killpg p SIGKILL],
       Inl (AssertionError (''timeout ('' @ str_int t @ '' s) expired'')))"
  by (simp add: supervised_def exits_by_def split: lifetime.splits)

lemma supervised_waits: "waits (fst (supervised p l t args)) = [t]"
  by (simp add: supervised_def split: lifetime.splits)

lemma supervised_popen_argvs: "popen_argvs (fst (supervised p l t args)) = []"
  by (simp add: supervised_def split: lifetime.splits)

lemma supervised_signals:
  "signals (fst (supervised p l t args)) = (if exits_by l t then [] else [Killpg p SIGKILL])"
  by (simp add: supervised_def exits_by_def split: lifetime.splits)

subsection \<open>Concrete worlds\<close>

text \<open>
  A world without SGX whose package directory is \<open>/usr/lib/gramine\<close>, in which
  exactly the listed paths exist and every process that is started has identifier 4242
  and the given lifetime.
\<close>

definition demo_world :: "string list \<Rightarrow> lifetime \<Rightarrow> world" where
  "demo_world present l =
    \<lparr>HAS_SGX = False, CONFIG_PKGLIBDIR = ''/usr/lib/gramine'',
     path_exists = (\<lambda>path. path \<in> set present),
     os_environ = [(''PATH'', ''/usr/bin'')],
     spawn = (\<lambda>argv env cwd. Inr (4242, l))\<rparr>"

definition installed :: "string list" where
  "installed = [''/usr/lib/gramine/direct/loader'', ''/usr/lib/gramine/direct/libpal.so'']"

definition no_kwds :: kwds where
  "no_kwds = \<lparr>kw_env = None, kw_cwd = None\<rparr>"

text \<open>\<open>hello\<close> followed by a newline.\<close>

definition hello :: bytes where
  "hello = [0x68, 0x65, 0x6C, 0x6C, 0x6F, 0x0A]"

lemma demo_paths:
  "loader_path (demo_world present l) = ''/usr/lib/gramine/direct/loader''"
  "libpal_path (demo_world present l) = ''/usr/lib/gramine/direct/libpal.so''"
  by (simp_all add: demo_world_def loader_path_def libpal_path_def pal_path_def)

lemma demo_default: "DEFAULT_TIMEOUT (demo_world present l) = 10"
  by (simp add: demo_world_def DEFAULT_TIMEOUT_def)

lemma demo_binary_starts:
  "binary_starts (demo_world installed l) args prefix no_kwds 4242 l"
  by (simp add: binary_starts_def demo_paths) (simp add: demo_world_def installed_def)

lemma demo_native_starts:
  "native_starts (demo_world present l) args libpath no_kwds 4242 l"
  by (simp add: native_starts_def no_kwds_def) (simp add: demo_world_def)

subsection \<open>The effective timeout\<close>

text \<open>
  C4. Whenever \<open>run_binary\<close> or \<open>run_native_binary\<close> gets to wait for its target, the
  bound it hands to \<open>communicate\<close> is the larger of \<open>DEFAULT_TIMEOUT\<close> and the requested
  timeout, and \<open>DEFAULT_TIMEOUT\<close> when none is requested. So the bound is never below
  the default and grows with the request.
\<close>

theorem effective_timeout_is_max:
  "(binary_starts w args prefix kwds p l \<longrightarrow>
      waits (fst (run_binary w args (Some t) prefix kwds)) = [max (DEFAULT_TIMEOUT w) t] \<and>
      waits (fst (run_binary w args None prefix kwds)) = [DEFAULT_TIMEOUT w]) \<and>
   (native_starts w args libpath kwds p l \<longrightarrow>
      waits (fst (run_native_binary w args (Some t) libpath kwds)) = [max (DEFAULT_TIMEOUT w) t] \<and>
      waits (fst (run_native_binary w args None libpath kwds)) = [DEFAULT_TIMEOUT w]) \<and>
   DEFAULT_TIMEOUT w \<le> max (DEFAULT_TIMEOUT w) t \<and>
   (t \<le> t' \<longrightarrow> max (DEFAULT_TIMEOUT w) t \<le> max (DEFAULT_TIMEOUT w) t')"
  by (auto simp: run_binary_started run_native_started supervised_waits effective_timeout_def)

theorem effective_timeout_is_max_witness:
  "binary_starts (demo_world installed (Exits 1 0 hello [])) [''helloworld''] None no_kwds 4242
     (Exits 1 0 hello []) \<and>
   waits (fst (run_binary (demo_world installed (Exits 1 0 hello [])) [''helloworld'']
     (Some 3) None no_kwds)) = [10] \<and>
   waits (fst (run_binary (demo_world installed (Exits 1 0 hello [])) [''helloworld'']
     None None no_kwds)) = [10] \<and>
   native_starts (demo_world installed (Exits 1 0 hello [])) [''helloworld''] None no_kwds 4242
     (Exits 1 0 hello []) \<and>
   waits (fst (run_native_binary (demo_world installed (Exits 1 0 hello [])) [''helloworld'']
     (Some 3) None no_kwds)) = [10] \<and>
   waits (fst (run_native_binary (demo_world installed (Exits 1 0 hello [])) [''helloworld'']
     None None no_kwds)) = [10] \<and>
   (3 :: int) \<le> 60 \<and>
   max (DEFAULT_TIMEOUT (demo_world installed (Exits 1 0 hello []))) 3
     \<le> max (DEFAULT_TIMEOUT (demo_world installed (Exits 1 0 hello []))) 60"
  using effective_timeout_is_max [of "demo_world installed (Exits 1 0 hello [])"
      "[''helloworld'']" None no_kwds 4242 "Exits 1 0 hello []" 3 None 60]
  by (simp add: demo_binary_starts demo_native_starts demo_default)

subsection \<open>The artifacts are checked before anything is started\<close>

text \<open>
  C6. \<open>run_binary\<close> first asks whether the loader exists and then whether the library
  exists. When the loader is missing it fails at once with a message that names the
  loader's path; when the library is missing it fails with a message that names the
  library's path; in both cases it never calls \<open>Popen\<close>. When both exist, the two
  checks are what it does first, and the call of \<open>Popen\<close> comes third.
\<close>

theorem missing_artifact_fails_before_launch:
  "(\<not> path_exists w (loader_path w) \<longrightarrow>
      run_binary w args timeout prefix kwds =
        ([Path_exists (loader_path w)],
         Inl (AssertionError (''loader ('' @ loader_path w @ '') not found''))) \<and>
      popen_argvs (fst (run_binary w args timeout prefix kwds)) = []) \<and>
   (path_exists w (loader_path w) \<and> \<not> path_exists w (libpal_path w) \<longrightarrow>
      run_binary w args timeout prefix kwds =
        ([Path_exists (loader_path w), Path_exists (libpal_path w)],
         Inl (AssertionError (''libpal ('' @ libpal_path w @ '') not found''))) \<and>
      popen_argvs (fst (run_binary w args timeout prefix kwds)) = []) \<and>
   (path_exists w (loader_path w) \<and> path_exists w (libpal_path w) \<longrightarrow>
      take 3 (fst (run_binary w args timeout prefix kwds)) =
        [Path_exists (loader_path w), Path_exists (libpal_path w),
         Popen (binary_argv w prefix args) (kw_env kwds) (kw_cwd kwds)])"
proof (intro conjI impI)
  assume "\<not> path_exists w (loader_path w)"
  then show "run_binary w args timeout prefix kwds =
      ([Path_exists (loader_path w)],
       Inl (AssertionError (''loader ('' @ loader_path w @ '') not found'')))"
    and "popen_argvs (fst (run_binary w args timeout prefix kwds)) = []"
    by (simp_all add: run_binary_no_loader)
next
  assume "path_exists w (loader_path w) \<and> \<not> path_exists w (libpal_path w)"
  then show "run_binary w args timeout prefix kwds =
      ([Path_exists (loader_path w), Path_exists (libpal_path w)],
       Inl (AssertionError (''libpal ('' @ libpal_path w @ '') not found'')))"
    and "popen_argvs (fst (run_binary w args timeout prefix kwds)) = []"
    by (simp_all add: run_binary_no_libpal)
next
  assume ex: "path_exists w (loader_path w) \<and> path_exists w (libpal_path w)"
  show "take 3 (fst (run_binary w args timeout prefix kwds)) =
      [Path_exists (loader_path w), Path_exists (libpal_path w),
       Popen (binary_argv w prefix args) (kw_env kwds) (kw_cwd kwds)]"
  proof (cases rule: spawn_cases [of w "binary_argv w prefix args" "kw_env kwds" "kw_cwd kwds"])
    case (1 errno)
    with ex show ?thesis by (simp add: run_binary_refused)
  next
    case (2 p l)
    with ex have "binary_starts w args prefix kwds p l" by (simp add: binary_starts_def)
    then show ?thesis by (simp add: run_binary_started)
  qed
qed

theorem missing_artifact_fails_before_launch_witness:
  "run_binary (demo_world [] (Exits 1 0 hello [])) [''helloworld''] None None no_kwds =
     ([Path_exists ''/usr/lib/gramine/direct/loader''],
      Inl (AssertionError ''loader (/usr/lib/gramine/direct/loader) not found'')) \<and>
   run_binary (demo_world [''/usr/lib/gramine/direct/loader''] (Exits 1 0 hello []))
       [''helloworld''] None None no_kwds =
     ([Path_exists ''/usr/lib/gramine/direct/loader'',
       Path_exists ''/usr/lib/gramine/direct/libpal.so''],
      Inl (AssertionError ''libpal (/usr/lib/gramine/direct/libpal.so) not found'')) \<and>
   take 3 (fst (run_binary (demo_world installed (Exits 1 0 hello [])) [''helloworld'']
       None None no_kwds)) =
     [Path_exists ''/usr/lib/gramine/direct/loader'',
      Path_exists ''/usr/lib/gramine/direct/libpal.so'',
      Popen [''/usr/lib/gramine/direct/loader'', ''/usr/lib/gramine/direct/libpal.so'',
             ''init'', ''helloworld''] None None]"
  using
    missing_artifact_fails_before_launch [of "demo_world [] (Exits 1 0 hello [])"
      "[''helloworld'']" None None no_kwds]
    missing_artifact_fails_before_launch [of
      "demo_world [''/usr/lib/gramine/direct/loader''] (Exits 1 0 hello [])"
      "[''helloworld'']" None None no_kwds]
    missing_artifact_fails_before_launch [of "demo_world installed (Exits 1 0 hello [])"
      "[''helloworld'']" None None no_kwds]
  by (simp add: demo_paths binary_argv_def)
     (simp add: demo_world_def installed_def no_kwds_def)

subsection \<open>The argument vector\<close>

text \<open>
  C7. When both artifacts exist, \<open>run_binary\<close> calls \<open>Popen\<close> exactly once, with the
  argument vector \<open>prefix @ [loader, library, 'init'] @ args\<close>, the prefix being empty
  when none is given. \<open>run_native_binary\<close> calls \<open>Popen\<close> exactly once with the
  caller's \<open>args\<close> and nothing else.
\<close>

theorem argument_vector:
  "(path_exists w (loader_path w) \<and> path_exists w (libpal_path w) \<longrightarrow>
      popen_argvs (fst (run_binary w args timeout (Some prefix) kwds)) =
        [prefix @ [loader_path w, libpal_path w, ''init''] @ args] \<and>
      popen_argvs (fst (run_binary w args timeout None kwds)) =
        [[loader_path w, libpal_path w, ''init''] @ args]) \<and>
   (kw_env kwds = None \<longrightarrow>
      popen_argvs (fst (run_native_binary w args timeout libpath kwds)) = [args])"
proof (intro conjI impI)
  assume ex: "path_exists w (loader_path w) \<and> path_exists w (libpal_path w)"
  have *: "popen_argvs (fst (run_binary w args timeout pre kwds)) = [binary_argv w pre args]"
    for pre
  proof (cases rule: spawn_cases [of w "binary_argv w pre args" "kw_env kwds" "kw_cwd kwds"])
    case (1 errno)
    with ex show ?thesis by (simp add: run_binary_refused)
  next
    case (2 p l)
    with ex have "binary_starts w args pre kwds p l" by (simp add: binary_starts_def)
    then show ?thesis by (simp add: run_binary_started supervised_popen_argvs)
  qed
  from * [of "Some prefix"]
  show "popen_argvs (fst (run_binary w args timeout (Some prefix) kwds)) =
      [prefix @ [loader_path w, libpal_path w, ''init''] @ args]"
    by (simp add: binary_argv_def)
  from * [of None]
  show "popen_argvs (fst (run_binary w args timeout None kwds)) =
      [[loader_path w, libpal_path w, ''init''] @ args]"
    by (simp add: binary_argv_def)
next
  assume env: "kw_env kwds = None"
  show "popen_argvs (fst (run_native_binary w args timeout libpath kwds)) = [args]"
  proof (cases rule: spawn_cases [of w args "Some (native_env w libpath)" "kw_cwd kwds"])
    case (1 errno)
    with env show ?thesis by (simp add: run_native_refused)
  next
    case (2 p l)
    with env have "native_starts w args libpath kwds p l" by (simp add: native_starts_def)
    then show ?thesis by (simp add: run_native_started supervised_popen_argvs)
  qed
qed

theorem argument_vector_witness:
  "popen_argvs (fst (run_binary (demo_world installed (Exits 1 0 hello [])) [''helloworld'', ''x'']
       None (Some [''gdb'', ''-q'', ''--args'']) no_kwds)) =
     [[''gdb'', ''-q'', ''--args'', ''/usr/lib/gramine/direct/loader'',
       ''/usr/lib/gramine/direct/libpal.so'', ''init'', ''helloworld'', ''x'']] \<and>
   popen_argvs (fst (run_binary (demo_world installed (Exits 1 0 hello [])) [''helloworld'', ''x'']
       None None no_kwds)) =
     [[''/usr/lib/gramine/direct/loader'', ''/usr/lib/gramine/direct/libpal.so'', ''init'',
       ''helloworld'', ''x'']] \<and>
   popen_argvs (fst (run_native_binary (demo_world installed (Exits 1 0 hello []))
       [''helloworld'', ''x''] None None no_kwds)) = [[''helloworld'', ''x'']]"
  using argument_vector [of "demo_world installed (Exits 1 0 hello [])"
      "[''helloworld'', ''x'']" None "[''gdb'', ''-q'', ''--args'']" no_kwds None]
  by (simp add: demo_paths)
     (simp add: demo_world_def installed_def no_kwds_def)

subsection \<open>Timeout\<close>

text \<open>
  C3. When the target is not gone by the effective timeout, the harness does exactly
  this: the two checks (for \<open>run_binary\<close>), the call of \<open>Popen\<close>, the wait with the
  effective timeout, and one \<open>SIGKILL\<close> to the process group of the child. No other
  signal is sent, none to a single process, and nothing is forwarded to the harness's
  own output. It then fails with an assertion error whose message names the bound that
  was used; the failure carries no output and is not a \<open>CalledProcessError\<close>.
\<close>

theorem timeout_kills_group_and_fails:
  "(binary_starts w args prefix kwds p l \<and> \<not> exits_by l (effective_timeout w timeout) \<longrightarrow>
      run_binary w args timeout prefix kwds =
        ([Path_exists (loader_path w), Path_exists (libpal_path w),
          Popen (binary_argv w prefix args) (kw_env kwds) (kw_cwd kwds),
          Communicate p (effective_timeout w timeout), Killpg p SIGKILL],
         Inl (AssertionError
           (''timeout ('' @ str_int (effective_timeout w timeout) @ '' s) expired''))) \<and>
      signals (fst (run_binary w args timeout prefix kwds)) = [Killpg p SIGKILL] \<and>
      writes (fst (run_binary w args timeout prefix kwds)) = []) \<and>
   (native_starts w args libpath kwds p l \<and> \<not> exits_by l (effective_timeout w timeout) \<longrightarrow>
      run_native_binary w args timeout libpath kwds =
        ([Popen args (Some (native_env w libpath)) (kw_cwd kwds),
          Communicate p (effective_timeout w timeout), Killpg p SIGKILL],
         Inl (AssertionError
           (''timeout ('' @ str_int (effective_timeout w timeout) @ '' s) expired''))) \<and>
      signals (fst (run_native_binary w args timeout libpath kwds)) = [Killpg p SIGKILL] \<and>
      writes (fst (run_native_binary w args timeout libpath kwds)) = [])"
proof (intro conjI impI)
  assume a: "binary_starts w args prefix kwds p l \<and> \<not> exits_by l (effective_timeout w timeout)"
  then have s: "supervised p l (effective_timeout w timeout) args =
      ([Communicate p (effective_timeout w timeout), Killpg p SIGKILL],
       Inl (AssertionError
         (''timeout ('' @ str_int (effective_timeout w timeout) @ '' s) expired'')))"
    by (simp add: supervised_timeout)
  from a have r: "run_binary w args timeout prefix kwds =
      ([Path_exists (loader_path w), Path_exists (libpal_path w),
        Popen (binary_argv w prefix args) (kw_env kwds) (kw_cwd kwds)]
         @ fst (supervised p l (effective_timeout w timeout) args),
       snd (supervised p l (effective_timeout w timeout) args))"
    using run_binary_started [of w args prefix kwds p l timeout] by simp
  show "run_binary w args timeout prefix kwds =
      ([Path_exists (loader_path w), Path_exists (libpal_path w),
        Popen (binary_argv w prefix args) (kw_env kwds) (kw_cwd kwds),
        Communicate p (effective_timeout w timeout), Killpg p SIGKILL],
       Inl (AssertionError
         (''timeout ('' @ str_int (effective_timeout w timeout) @ '' s) expired'')))"
    unfolding r s by simp
  show "signals (fst (run_binary w args timeout prefix kwds)) = [Killpg p SIGKILL]"
    unfolding r s by simp
  show "writes (fst (run_binary w args timeout prefix kwds)) = []"
    unfolding r s by simp
next
  assume a: "native_starts w args libpath kwds p l \<and> \<not> exits_by l (effective_timeout w timeout)"
  then have s: "supervised p l (effective_timeout w timeout) args =
      ([Communicate p (effective_timeout w timeout), Killpg p SIGKILL],
       Inl (AssertionError
         (''timeout ('' @ str_int (effective_timeout w timeout) @ '' s) expired'')))"
    by (simp add: supervised_timeout)
  from a have r: "run_native_binary w args timeout libpath kwds =
      (Popen args (Some (native_env w libpath)) (kw_cwd kwds)
         # fst (supervised p l (effective_timeout w timeout) args),
       snd (supervised p l (effective_timeout w timeout) args))"
    using run_native_started [of w args libpath kwds p l timeout] by simp
  show "run_native_binary w args timeout libpath kwds =
      ([Popen args (Some (native_env w libpath)) (kw_cwd kwds),
        Communicate p (effective_timeout w timeout), Killpg p SIGKILL],
       Inl (AssertionError
         (''timeout ('' @ str_int (effective_timeout w timeout) @ '' s) expired'')))"
    unfolding r s by simp
  show "signals (fst (run_native_binary w args timeout libpath kwds)) = [Killpg p SIGKILL]"
    unfolding r s by simp
  show "writes (fst (run_native_binary w args timeout libpath kwds)) = []"
    unfolding r s by simp
qed

theorem timeout_kills_group_and_fails_witness:
  "run_binary (demo_world installed (Exits 30 0 hello [])) [''sleeper''] (Some 2) None no_kwds =
     ([Path_exists ''/usr/lib/gramine/direct/loader'',
       Path_exists ''/usr/lib/gramine/direct/libpal.so'',
       Popen [''/usr/lib/gramine/direct/loader'', ''/usr/lib/gramine/direct/libpal.so'',
              ''init'', ''sleeper''] None None,
       Communicate 4242 10, Killpg 4242 SIGKILL],
      Inl (AssertionError ''timeout (10 s) expired'')) \<and>
   run_native_binary (demo_world installed Never_exits) [''sleeper''] (Some 25) None no_kwds =
     ([Popen [''sleeper''] (Some [(''PATH'', ''/usr/bin'')]) None,
       Communicate 4242 25, Killpg 4242 SIGKILL],
      Inl (AssertionError ''timeout (25 s) expired''))"
  using
    timeout_kills_group_and_fails [of "demo_world installed (Exits 30 0 hello [])"
      "[''sleeper'']" None no_kwds 4242 "Exits 30 0 hello []" "Some 2"]
    timeout_kills_group_and_fails [of "demo_world installed Never_exits"
      "[''sleeper'']" None no_kwds 4242 Never_exits "Some 25" None]
  by (simp add: demo_binary_starts demo_native_starts demo_paths demo_default
        effective_timeout_def exits_by_def binary_argv_def native_env_def
        str_int_def str_nat.simps)
     (simp add: demo_world_def no_kwds_def)

text \<open>
  C9. In one call the harness sends at most one signal. When it sends one, the target
  had started and was not gone by the effective timeout, the signal is the last thing
  the harness does and comes right after the wait, and the call ends in the timeout
  failure: it neither returns a result nor raises \<open>CalledProcessError\<close>.
\<close>

theorem kill_once_and_only_after_timeout:
  "length (signals (fst (run_binary w args timeout prefix kwds))) \<le> 1 \<and>
   (signals (fst (run_binary w args timeout prefix kwds)) \<noteq> [] \<longrightarrow>
      (\<exists>p l evs.
         binary_starts w args prefix kwds p l \<and> \<not> exits_by l (effective_timeout w timeout) \<and>
         fst (run_binary w args timeout prefix kwds) =
           evs @ [Communicate p (effective_timeout w timeout), Killpg p SIGKILL] \<and>
         signals evs = [] \<and>
         snd (run_binary w args timeout prefix kwds) =
           Inl (AssertionError
             (''timeout ('' @ str_int (effective_timeout w timeout) @ '' s) expired'')))) \<and>
   length (signals (fst (run_native_binary w args timeout libpath kwds))) \<le> 1 \<and>
   (signals (fst (run_native_binary w args timeout libpath kwds)) \<noteq> [] \<longrightarrow>
      (\<exists>p l evs.
         native_starts w args libpath kwds p l \<and> \<not> exits_by l (effective_timeout w timeout) \<and>
         fst (run_native_binary w args timeout libpath kwds) =
           evs @ [Communicate p (effective_timeout w timeout), Killpg p SIGKILL] \<and>
         signals evs = [] \<and>
         snd (run_native_binary w args timeout libpath kwds) =
           Inl (AssertionError
             (''timeout ('' @ str_int (effective_timeout w timeout) @ '' s) expired''))))"
proof -
  let ?t = "effective_timeout w timeout"
  have binary: "length (signals (fst (run_binary w args timeout prefix kwds))) \<le> 1 \<and>
    (signals (fst (run_binary w args timeout prefix kwds)) \<noteq> [] \<longrightarrow>
      (\<exists>p l evs.
         binary_starts w args prefix kwds p l \<and> \<not> exits_by l ?t \<and>
         fst (run_binary w args timeout prefix kwds) = evs @ [Communicate p ?t, Killpg p SIGKILL] \<and>
         signals evs = [] \<and>
         snd (run_binary w args timeout prefix kwds) =
           Inl (AssertionError (''timeout ('' @ str_int ?t @ '' s) expired''))))"
  proof (cases "path_exists w (loader_path w)")
    case False
    then show ?thesis by (simp add: run_binary_no_loader)
  next
    case loader: True
    show ?thesis
    proof (cases "path_exists w (libpal_path w)")
      case False
      with loader show ?thesis by (simp add: run_binary_no_libpal)
    next
      case libpal: True
      show ?thesis
      proof (cases rule: spawn_cases [of w "binary_argv w prefix args" "kw_env kwds" "kw_cwd kwds"])
        case (1 errno)
        with loader libpal show ?thesis by (simp add: run_binary_refused)
      next
        case (2 p l)
        with loader libpal have st: "binary_starts w args prefix kwds p l"
          by (simp add: binary_starts_def)
        show ?thesis
        proof (cases "exits_by l ?t")
          case True
          with st show ?thesis by (simp add: run_binary_started supervised_signals)
        next
          case False
          with st have "fst (run_binary w args timeout prefix kwds) =
              [Path_exists (loader_path w), Path_exists (libpal_path w),
               Popen (binary_argv w prefix args) (kw_env kwds) (kw_cwd kwds)]
              @ [Communicate p ?t, Killpg p SIGKILL]"
            and "snd (run_binary w args timeout prefix kwds) =
              Inl (AssertionError (''timeout ('' @ str_int ?t @ '' s) expired''))"
            and "length (signals (fst (run_binary w args timeout prefix kwds))) \<le> 1"
            by (simp_all add: run_binary_started supervised_timeout)
          then have "fst (run_binary w args timeout prefix kwds) =
              [Path_exists (loader_path w), Path_exists (libpal_path w),
               Popen (binary_argv w prefix args) (kw_env kwds) (kw_cwd kwds)]
              @ [Communicate p ?t, Killpg p SIGKILL] \<and>
            signals [Path_exists (loader_path w), Path_exists (libpal_path w),
               Popen (binary_argv w prefix args) (kw_env kwds) (kw_cwd kwds)] = [] \<and>
            snd (run_binary w args timeout prefix kwds) =
              Inl (AssertionError (''timeout ('' @ str_int ?t @ '' s) expired'')) \<and>
            length (signals (fst (run_binary w args timeout prefix kwds))) \<le> 1"
            by simp
          with st False show ?thesis
            by blast
        qed
      qed
    qed
  qed
  have native: "length (signals (fst (run_native_binary w args timeout libpath kwds))) \<le> 1 \<and>
    (signals (fst (run_native_binary w args timeout libpath kwds)) \<noteq> [] \<longrightarrow>
      (\<exists>p l evs.
         native_starts w args libpath kwds p l \<and> \<not> exits_by l ?t \<and>
         fst (run_native_binary w args timeout libpath kwds) =
           evs @ [Communicate p ?t, Killpg p SIGKILL] \<and>
         signals evs = [] \<and>
         snd (run_native_binary w args timeout libpath kwds) =
           Inl (AssertionError (''timeout ('' @ str_int ?t @ '' s) expired''))))"
  proof (cases "kw_env kwds = None")
    case False
    then show ?thesis by (simp add: run_native_env_twice)
  next
    case env: True
    show ?thesis
    proof (cases rule: spawn_cases [of w args "Some (native_env w libpath)" "kw_cwd kwds"])
      case (1 errno)
      with env show ?thesis by (simp add: run_native_refused)
    next
      case (2 p l)
      with env have st: "native_starts w args libpath kwds p l"
        by (simp add: native_starts_def)
      show ?thesis
      proof (cases "exits_by l ?t")
        case True
        with st show ?thesis by (simp add: run_native_started supervised_signals)
      next
        case False
        with st have "fst (run_native_binary w args timeout libpath kwds) =
            [Popen args (Some (native_env w libpath)) (kw_cwd kwds)]
            @ [Communicate p ?t, Killpg p SIGKILL]"
          and "snd (run_native_binary w args timeout libpath kwds) =
            Inl (AssertionError (''timeout ('' @ str_int ?t @ '' s) expired''))"
          and "length (signals (fst (run_native_binary w args timeout libpath kwds))) \<le> 1"
          by (simp_all add: run_native_started supervised_timeout)
        then have "fst (run_native_binary w args timeout libpath kwds) =
            [Popen args (Some (native_env w libpath)) (kw_cwd kwds)]
            @ [Communicate p ?t, Killpg p SIGKILL] \<and>
          signals [Popen args (Some (native_env w libpath)) (kw_cwd kwds)] = [] \<and>
          snd (run_native_binary w args timeout libpath kwds) =
            Inl (AssertionError (''timeout ('' @ str_int ?t @ '' s) expired'')) \<and>
          length (signals (fst (run_native_binary w args timeout libpath kwds))) \<le> 1"
          by simp
        with st False show ?thesis
          by blast
      qed
    qed
  qed
  from binary native show ?thesis by blast
qed

theorem kill_once_and_only_after_timeout_witness:
  "signals (fst (run_binary (demo_world installed Never_exits) [''sleeper''] None None no_kwds))
     = [Killpg 4242 SIGKILL] \<and>
   (\<exists>p l evs.
      binary_starts (demo_world installed Never_exits) [''sleeper''] None no_kwds p l \<and>
      \<not> exits_by l 10 \<and>
      fst (run_binary (demo_world installed Never_exits) [''sleeper''] None None no_kwds) =
        evs @ [Communicate p 10, Killpg p SIGKILL] \<and>
      signals evs = [] \<and>
      snd (run_binary (demo_world installed Never_exits) [''sleeper''] None None no_kwds) =
        Inl (AssertionError ''timeout (10 s) expired'')) \<and>
   signals (fst (run_native_binary (demo_world installed Never_exits) [''sleeper''] None None
     no_kwds)) = [Killpg 4242 SIGKILL] \<and>
   (\<exists>p l evs.
      native_starts (demo_world installed Never_exits) [''sleeper''] None no_kwds p l \<and>
      \<not> exits_by l 10 \<and>
      fst (run_native_binary (demo_world installed Never_exits) [''sleeper''] None None no_kwds) =
        evs @ [Communicate p 10, Killpg p SIGKILL] \<and>
      signals evs = [] \<and>
      snd (run_native_binary (demo_world installed Never_exits) [''sleeper''] None None no_kwds) =
        Inl (AssertionError ''timeout (10 s) expired''))"
proof -
  let ?w = "demo_world installed Never_exits"
  have b: "signals (fst (run_binary ?w [''sleeper''] None None no_kwds)) = [Killpg 4242 SIGKILL]"
    using run_binary_started [of ?w "[''sleeper'']" None no_kwds 4242 Never_exits None]
    by (simp add: demo_binary_starts supervised_signals exits_by_def)
  have n: "signals (fst (run_native_binary ?w [''sleeper''] None None no_kwds))
      = [Killpg 4242 SIGKILL]"
    using run_native_started [of ?w "[''sleeper'']" None no_kwds 4242 Never_exits None]
    by (simp add: demo_native_starts supervised_signals exits_by_def)
  have t: "effective_timeout ?w None = 10"
    by (simp add: effective_timeout_def demo_default)
  have m: "str_int 10 = ''10''"
    by (simp add: str_int_def str_nat.simps)
  from kill_once_and_only_after_timeout [of ?w "[''sleeper'']" None None no_kwds None] b n
  show ?thesis
    by (simp add: t m)
qed

subsection \<open>A failing exit status\<close>

lemma returned_error: "returned out err = Inl e \<Longrightarrow> e = UnicodeDecodeError"
  by (auto simp: returned_def split: sum.splits dest: decode_strict_error)

lemma supervised_called_process_error:
  "(snd (supervised p l t args) = Inl (CalledProcessError k cmd out err)) =
   (\<exists>d. l = Exits d k out err \<and> d \<le> real_of_int t \<and> k \<noteq> 0 \<and> cmd = args)"
proof (cases l)
  case Never_exits
  then show ?thesis by (simp add: supervised_def)
next
  case (Exits d' k' out' err')
  then show ?thesis
    using returned_error [of out' err' "CalledProcessError k cmd out err"]
    by (auto simp: supervised_def)
qed

text \<open>
  C2. When the target exits with a status \<open>k\<close> other than zero before the effective
  timeout, the call raises \<open>CalledProcessError\<close> with exactly \<open>k\<close>, the caller's
  arguments and both captured streams in full. The call raises \<open>CalledProcessError\<close>
  if and only if the target started and was seen to exit, by the deadline, with a status
  other than zero.
\<close>

theorem nonzero_exit_raises_called_process_error:
  "(binary_starts w args prefix kwds p (Exits d k out err) \<and> k \<noteq> 0 \<and>
      d < real_of_int (effective_timeout w timeout) \<longrightarrow>
      snd (run_binary w args timeout prefix kwds) = Inl (CalledProcessError k args out err)) \<and>
   ((\<exists>k' cmd out' err'.
       snd (run_binary w args timeout prefix kwds) = Inl (CalledProcessError k' cmd out' err')) =
    (\<exists>p' d' k' out' err'.
       binary_starts w args prefix kwds p' (Exits d' k' out' err') \<and>
       d' \<le> real_of_int (effective_timeout w timeout) \<and> k' \<noteq> 0)) \<and>
   (native_starts w args libpath kwds p (Exits d k out err) \<and> k \<noteq> 0 \<and>
      d < real_of_int (effective_timeout w timeout) \<longrightarrow>
      snd (run_native_binary w args timeout libpath kwds) =
        Inl (CalledProcessError k args out err)) \<and>
   ((\<exists>k' cmd out' err'.
       snd (run_native_binary w args timeout libpath kwds) =
         Inl (CalledProcessError k' cmd out' err')) =
    (\<exists>p' d' k' out' err'.
       native_starts w args libpath kwds p' (Exits d' k' out' err') \<and>
       d' \<le> real_of_int (effective_timeout w timeout) \<and> k' \<noteq> 0))"
proof (intro conjI impI)
  let ?t = "effective_timeout w timeout"
  assume a: "binary_starts w args prefix kwds p (Exits d k out err) \<and> k \<noteq> 0 \<and> d < real_of_int ?t"
  then show "snd (run_binary w args timeout prefix kwds) = Inl (CalledProcessError k args out err)"
    using run_binary_started [of w args prefix kwds p "Exits d k out err" timeout]
    by (simp add: supervised_exited)
next
  let ?t = "effective_timeout w timeout"
  assume a: "native_starts w args libpath kwds p (Exits d k out err) \<and> k \<noteq> 0 \<and> d < real_of_int ?t"
  then show "snd (run_native_binary w args timeout libpath kwds) =
      Inl (CalledProcessError k args out err)"
    using run_native_started [of w args libpath kwds p "Exits d k out err" timeout]
    by (simp add: supervised_exited)
next
  let ?t = "effective_timeout w timeout"
  show "(\<exists>k' cmd out' err'.
       snd (run_binary w args timeout prefix kwds) = Inl (CalledProcessError k' cmd out' err')) =
    (\<exists>p' d' k' out' err'.
       binary_starts w args prefix kwds p' (Exits d' k' out' err') \<and> d' \<le> real_of_int ?t \<and> k' \<noteq> 0)"
    (is "?raised = ?exited")
  proof
    assume ?exited
    then obtain p' d' k' out' err' where
      "binary_starts w args prefix kwds p' (Exits d' k' out' err')" "d' \<le> real_of_int ?t" "k' \<noteq> 0"
      by blast
    then have "snd (run_binary w args timeout prefix kwds) =
        Inl (CalledProcessError k' args out' err')"
      using run_binary_started [of w args prefix kwds p' "Exits d' k' out' err'" timeout]
      by (simp add: supervised_exited)
    then show ?raised by blast
  next
    assume ?raised
    then obtain k' cmd out' err' where
      r: "snd (run_binary w args timeout prefix kwds) = Inl (CalledProcessError k' cmd out' err')"
      by blast
    show ?exited
    proof (cases "path_exists w (loader_path w)")
      case False
      with r show ?thesis by (simp add: run_binary_no_loader)
    next
      case loader: True
      show ?thesis
      proof (cases "path_exists w (libpal_path w)")
        case False
        with loader r show ?thesis by (simp add: run_binary_no_libpal)
      next
        case libpal: True
        show ?thesis
        proof (cases rule: spawn_cases [of w "binary_argv w prefix args" "kw_env kwds" "kw_cwd kwds"])
          case (1 errno)
          with loader libpal r show ?thesis by (simp add: run_binary_refused)
        next
          case (2 p' l)
          with loader libpal have st: "binary_starts w args prefix kwds p' l"
            by (simp add: binary_starts_def)
          with r have "snd (supervised p' l ?t args) = Inl (CalledProcessError k' cmd out' err')"
            using run_binary_started [of w args prefix kwds p' l timeout] by simp
          then obtain d' where "l = Exits d' k' out' err'" "d' \<le> real_of_int ?t" "k' \<noteq> 0"
            by (auto simp: supervised_called_process_error)
          with st show ?thesis by blast
        qed
      qed
    qed
  qed
next
  let ?t = "effective_timeout w timeout"
  show "(\<exists>k' cmd out' err'.
       snd (run_native_binary w args timeout libpath kwds) =
         Inl (CalledProcessError k' cmd out' err')) =
    (\<exists>p' d' k' out' err'.
       native_starts w args libpath kwds p' (Exits d' k' out' err') \<and> d' \<le> real_of_int ?t \<and> k' \<noteq> 0)"
    (is "?raised = ?exited")
  proof
    assume ?exited
    then obtain p' d' k' out' err' where
      "native_starts w args libpath kwds p' (Exits d' k' out' err')" "d' \<le> real_of_int ?t" "k' \<noteq> 0"
      by blast
    then have "snd (run_native_binary w args timeout libpath kwds) =
        Inl (CalledProcessError k' args out' err')"
      using run_native_started [of w args libpath kwds p' "Exits d' k' out' err'" timeout]
      by (simp add: supervised_exited)
    then show ?raised by blast
  next
    assume ?raised
    then obtain k' cmd out' err' where
      r: "snd (run_native_binary w args timeout libpath kwds) =
        Inl (CalledProcessError k' cmd out' err')"
      by blast
    show ?exited
    proof (cases "kw_env kwds = None")
      case False
      with r show ?thesis by (simp add: run_native_env_twice)
    next
      case env: True
      show ?thesis
      proof (cases rule: spawn_cases [of w args "Some (native_env w libpath)" "kw_cwd kwds"])
        case (1 errno)
        with env r show ?thesis by (simp add: run_native_refused)
      next
        case (2 p' l)
        with env have st: "native_starts w args libpath kwds p' l"
          by (simp add: native_starts_def)
        with r have "snd (supervised p' l ?t args) = Inl (CalledProcessError k' cmd out' err')"
          using run_native_started [of w args libpath kwds p' l timeout] by simp
        then obtain d' where "l = Exits d' k' out' err'" "d' \<le> real_of_int ?t" "k' \<noteq> 0"
          by (auto simp: supervised_called_process_error)
        with st show ?thesis by blast
      qed
    qed
  qed
qed

theorem nonzero_exit_raises_called_process_error_witness:
  "binary_starts (demo_world installed (Exits 1 7 hello [0x21])) [''false''] None no_kwds 4242
     (Exits 1 7 hello [0x21]) \<and>
   (1 :: real) < real_of_int (effective_timeout (demo_world installed (Exits 1 7 hello [0x21])) None) \<and>
   snd (run_binary (demo_world installed (Exits 1 7 hello [0x21])) [''false''] None None no_kwds) =
     Inl (CalledProcessError 7 [''false''] hello [0x21]) \<and>
   snd (run_native_binary (demo_world installed (Exits 1 7 hello [0x21])) [''false''] None None
     no_kwds) = Inl (CalledProcessError 7 [''false''] hello [0x21])"
  using nonzero_exit_raises_called_process_error [of
      "demo_world installed (Exits 1 7 hello [0x21])" "[''false'']" None no_kwds 4242 1 7 hello
      "[0x21]" None None]
  by (simp add: demo_binary_starts demo_native_starts effective_timeout_def demo_default)

subsection \<open>Forwarding of the captured output\<close>

text \<open>
  C8. Whenever the target is seen to exit by the deadline, whatever its status and
  whatever the call then returns or raises, the harness writes the whole of the
  captured standard output to its own standard output and then the whole of the
  captured standard error to its own standard error; these two writes follow the wait
  and are the last thing the call does. The text written is the decoding with the
  handler \<open>surrogateescape\<close>, which yields a text for every byte sequence, so that
  \<open>print_output\<close> never raises.
\<close>

theorem output_forwarded_before_outcome:
  "(binary_starts w args prefix kwds p (Exits d k out err) \<and>
      d \<le> real_of_int (effective_timeout w timeout) \<longrightarrow>
      (\<exists>so se.
         decode SurrogateEscape out = Inr so \<and> decode SurrogateEscape err = Inr se \<and>
         fst (run_binary w args timeout prefix kwds) =
           [Path_exists (loader_path w), Path_exists (libpal_path w),
            Popen (binary_argv w prefix args) (kw_env kwds) (kw_cwd kwds),
            Communicate p (effective_timeout w timeout), Stdout_write so, Stderr_write se])) \<and>
   (native_starts w args libpath kwds p (Exits d k out err) \<and>
      d \<le> real_of_int (effective_timeout w timeout) \<longrightarrow>
      (\<exists>so se.
         decode SurrogateEscape out = Inr so \<and> decode SurrogateEscape err = Inr se \<and>
         fst (run_native_binary w args timeout libpath kwds) =
           [Popen args (Some (native_env w libpath)) (kw_cwd kwds),
            Communicate p (effective_timeout w timeout), Stdout_write so, Stderr_write se])) \<and>
   (\<exists>s. decode SurrogateEscape bs = Inr s) \<and>
   (\<exists>so se. print_output out err = ([Stdout_write so, Stderr_write se], Inr ()))"
proof (intro conjI impI)
  assume "binary_starts w args prefix kwds p (Exits d k out err) \<and>
      d \<le> real_of_int (effective_timeout w timeout)"
  then have "fst (run_binary w args timeout prefix kwds) =
      [Path_exists (loader_path w), Path_exists (libpal_path w),
       Popen (binary_argv w prefix args) (kw_env kwds) (kw_cwd kwds),
       Communicate p (effective_timeout w timeout),
       Stdout_write (shown out), Stderr_write (shown err)]"
    using run_binary_started [of w args prefix kwds p "Exits d k out err" timeout]
    by (simp add: supervised_exited)
  then show "\<exists>so se.
      decode SurrogateEscape out = Inr so \<and> decode SurrogateEscape err = Inr se \<and>
      fst (run_binary w args timeout prefix kwds) =
        [Path_exists (loader_path w), Path_exists (libpal_path w),
         Popen (binary_argv w prefix args) (kw_env kwds) (kw_cwd kwds),
         Communicate p (effective_timeout w timeout), Stdout_write so, Stderr_write se]"
    by (intro exI [of _ "shown out"] exI [of _ "shown err"]) (simp add: decode_shown)
next
  assume "native_starts w args libpath kwds p (Exits d k out err) \<and>
      d \<le> real_of_int (effective_timeout w timeout)"
  then have "fst (run_native_binary w args timeout libpath kwds) =
      [Popen args (Some (native_env w libpath)) (kw_cwd kwds),
       Communicate p (effective_timeout w timeout),
       Stdout_write (shown out), Stderr_write (shown err)]"
    using run_native_started [of w args libpath kwds p "Exits d k out err" timeout]
    by (simp add: supervised_exited)
  then show "\<exists>so se.
      decode SurrogateEscape out = Inr so \<and> decode SurrogateEscape err = Inr se \<and>
      fst (run_native_binary w args timeout libpath kwds) =
        [Popen args (Some (native_env w libpath)) (kw_cwd kwds),
         Communicate p (effective_timeout w timeout), Stdout_write so, Stderr_write se]"
    by (intro exI [of _ "shown out"] exI [of _ "shown err"]) (simp add: decode_shown)
next
  show "\<exists>s. decode SurrogateEscape bs = Inr s"
    by (rule decode_surrogateescape_total)
next
  show "\<exists>so se. print_output out err = ([Stdout_write so, Stderr_write se], Inr ())"
    by (intro exI [of _ "shown out"] exI [of _ "shown err"]) (rule print_output_shown)
qed

subsection \<open>Evaluating the decoder\<close>

lemma decode_Nil: "decode handler [] = Inr []"
  by (simp add: decode.simps)

lemma decode_Cons:
  "decode handler (b # bs) =
    (case utf8_scan (b # bs) of
       Decoded cp n \<Rightarrow>
         (case decode handler (drop n (b # bs)) of
            Inl e \<Rightarrow> Inl e
          | Inr s \<Rightarrow> Inr (cp # s))
     | Invalid n \<Rightarrow>
         (case handler of
            Strict \<Rightarrow> Inl UnicodeDecodeError
          | SurrogateEscape \<Rightarrow>
              (case surrogateescape_errors (take n (b # bs)) of
                 None \<Rightarrow> Inl UnicodeDecodeError
               | Some (rep, k) \<Rightarrow>
                   (case decode handler (drop k (b # bs)) of
                      Inl e \<Rightarrow> Inl e
                    | Inr s \<Rightarrow> Inr (rep @ s)))))"
  by (subst decode.simps) simp

lemmas decode_eval =
  decode_Nil decode_Cons utf8_scan.simps Let_def is_continuation_byte_def
  surrogateescape_errors_def

text \<open>
  A byte that starts no UTF-8 sequence followed by \<open>h\<close>; the start of a two-byte
  sequence followed by \<open>(\<close>; a lone continuation byte; \<open>e\<close> with an acute accent.
\<close>

lemma decode_escaped:
  "decode SurrogateEscape [0xFF, 0x68] = Inr [0xDCFF, 0x68]"
  "decode SurrogateEscape [0xC3, 0x28] = Inr [0xDCC3, 0x28]"
  by (simp_all add: decode_eval)

lemma decode_strict_examples:
  "decode Strict [0xFF, 0x68] = Inl UnicodeDecodeError"
  "decode Strict [0xC3, 0x28] = Inl UnicodeDecodeError"
  "decode Strict [0x80] = Inl UnicodeDecodeError"
  "decode Strict [] = Inr []"
  "decode Strict hello = Inr [0x68, 0x65, 0x6C, 0x6C, 0x6F, 0x0A]"
  "decode Strict [0xC3, 0xA9] = Inr [0xE9]"
  by (simp_all add: decode_eval hello_def)

theorem output_forwarded_before_outcome_witness:
  "fst (run_binary (demo_world installed (Exits 1 3 [0xFF, 0x68] [0xC3, 0x28])) [''noisy'']
       None None no_kwds) =
     [Path_exists ''/usr/lib/gramine/direct/loader'',
      Path_exists ''/usr/lib/gramine/direct/libpal.so'',
      Popen [''/usr/lib/gramine/direct/loader'', ''/usr/lib/gramine/direct/libpal.so'',
             ''init'', ''noisy''] None None,
      Communicate 4242 10, Stdout_write [0xDCFF, 0x68], Stderr_write [0xDCC3, 0x28]] \<and>
   fst (run_native_binary (demo_world installed (Exits 1 3 [0xFF, 0x68] [0xC3, 0x28]))
       [''noisy''] None None no_kwds) =
     [Popen [''noisy''] (Some [(''PATH'', ''/usr/bin'')]) None,
      Communicate 4242 10, Stdout_write [0xDCFF, 0x68], Stderr_write [0xDCC3, 0x28]]"
  using output_forwarded_before_outcome [of
      "demo_world installed (Exits 1 3 [0xFF, 0x68] [0xC3, 0x28])" "[''noisy'']" None no_kwds
      4242 1 3 "[0xFF, 0x68]" "[0xC3, 0x28]" None None]
  by (simp add: demo_binary_starts demo_native_starts effective_timeout_def demo_default
        decode_escaped demo_paths binary_argv_def native_env_def)
     (simp add: demo_world_def no_kwds_def)

subsection \<open>Expecting a failing exit status\<close>

text \<open>
  C5. \<open>expect_returncode\<close> with expected code \<open>c\<close>: for \<open>c = 0\<close> it raises
  \<open>ValueError\<close> and the body does not run; when the body ends without an exception it
  fails with \<open>did not fail (expected c)\<close>; when the body raises \<open>CalledProcessError\<close>
  with another code \<open>k\<close> it fails with \<open>failed with returncode k (expected c)\<close>; when
  the body raises \<open>CalledProcessError\<close> with code \<open>c\<close> it ends normally; any other
  exception of the body leaves it as it is. What the body did stays done.
\<close>

theorem expect_returncode_cases:
  "expect_returncode 0 (body :: 'a run) =
     ([], Inl (ValueError ''expected returncode should be nonzero'')) \<and>
   (c \<noteq> 0 \<longrightarrow>
      expect_returncode c (evs, (Inr x :: error + 'a)) =
        (evs, Inl (AssertionError (''did not fail (expected '' @ str_int c @ '')'')))) \<and>
   (c \<noteq> 0 \<and> k \<noteq> c \<longrightarrow>
      expect_returncode c (evs, (Inl (CalledProcessError k cmd out err) :: error + 'a)) =
        (evs, Inl (AssertionError (''failed with returncode '' @ str_int k
                     @ '' (expected '' @ str_int c @ '')'')))) \<and>
   (c \<noteq> 0 \<longrightarrow>
      expect_returncode c (evs, (Inl (CalledProcessError c cmd out err) :: error + 'a)) =
        (evs, Inr ())) \<and>
   (c \<noteq> 0 \<and> (\<forall>k cmd out err. e \<noteq> CalledProcessError k cmd out err) \<longrightarrow>
      expect_returncode c (evs, (Inl e :: error + 'a)) = (evs, Inl e))"
  by (cases e) (simp_all add: expect_returncode_def)

theorem expect_returncode_cases_witness:
  "expect_returncode 5 ([Communicate 4242 10], (Inr ([], []) :: error + str \<times> str)) =
     ([Communicate 4242 10], Inl (AssertionError ''did not fail (expected 5)'')) \<and>
   expect_returncode 5
       ([Communicate 4242 10], (Inl (CalledProcessError 3 [''t''] [] []) :: error + str \<times> str)) =
     ([Communicate 4242 10], Inl (AssertionError ''failed with returncode 3 (expected 5)'')) \<and>
   expect_returncode 5
       ([Communicate 4242 10], (Inl (CalledProcessError 5 [''t''] [] []) :: error + str \<times> str)) =
     ([Communicate 4242 10], Inr ()) \<and>
   expect_returncode 5
       ([Communicate 4242 10], (Inl (OSError 13) :: error + str \<times> str)) =
     ([Communicate 4242 10], Inl (OSError 13)) \<and>
   expect_returncode 0
       ([Communicate 4242 10], (Inl (CalledProcessError 5 [''t''] [] []) :: error + str \<times> str)) =
     ([], Inl (ValueError ''expected returncode should be nonzero''))"
proof -
  have m: "str_int 5 = ''5''" "str_int 3 = ''3''"
    by (simp_all add: str_int_def str_nat.simps)
  have d: "\<forall>k cmd out err. OSError 13 \<noteq> CalledProcessError k cmd out err"
    by simp
  from d expect_returncode_cases [of
      "([Communicate 4242 10], (Inl (CalledProcessError 5 [''t''] [] []) :: error + str \<times> str))"
      5 "[Communicate 4242 10]" "([], []) :: str \<times> str" 3 "[''t'']" "[]" "[]" "OSError 13"]
  show ?thesis
    by (simp add: m)
qed

subsection \<open>What a successful call returns\<close>

lemma supervised_success:
  "d \<le> real_of_int t \<Longrightarrow>
    supervised p (Exits d 0 out err) t args =
      ([Communicate p t, Stdout_write (shown out), Stderr_write (shown err)], returned out err)"
  by (simp add: supervised_def)

lemma returned_invalid:
  "decode Strict out = Inl e \<or> decode Strict err = Inl e \<Longrightarrow>
    returned out err = Inl UnicodeDecodeError"
  by (auto simp: returned_def split: sum.splits dest: decode_strict_error)

text \<open>
  C10. When the target exits with status zero before the effective timeout, what the
  call hands back is decided by the strict UTF-8 decoding of the captured bytes: the
  pair of decoded texts when both streams decode, and the decoding error otherwise. So
  a stream that is not valid UTF-8 makes the call raise \<open>UnicodeDecodeError\<close>
  although the target succeeded; and there are such invocations, of \<open>run_binary\<close> and
  of \<open>run_native_binary\<close>.
\<close>

theorem success_path_decodes_strictly:
  "(binary_starts w args prefix kwds p (Exits d 0 out err) \<and>
      d < real_of_int (effective_timeout w timeout) \<longrightarrow>
      snd (run_binary w args timeout prefix kwds) =
        (case decode Strict out of
           Inl e \<Rightarrow> Inl e
         | Inr so \<Rightarrow> (case decode Strict err of Inl e \<Rightarrow> Inl e | Inr se \<Rightarrow> Inr (so, se))) \<and>
      (decode Strict out = Inl e \<or> decode Strict err = Inl e \<longrightarrow>
         snd (run_binary w args timeout prefix kwds) = Inl UnicodeDecodeError)) \<and>
   (native_starts w args libpath kwds p (Exits d 0 out err) \<and>
      d < real_of_int (effective_timeout w timeout) \<longrightarrow>
      snd (run_native_binary w args timeout libpath kwds) =
        (case decode Strict out of
           Inl e \<Rightarrow> Inl e
         | Inr so \<Rightarrow> (case decode Strict err of Inl e \<Rightarrow> Inl e | Inr se \<Rightarrow> Inr (so, se))) \<and>
      (decode Strict out = Inl e \<or> decode Strict err = Inl e \<longrightarrow>
         snd (run_native_binary w args timeout libpath kwds) = Inl UnicodeDecodeError)) \<and>
   (\<exists>w' args' timeout' prefix' kwds' p' d' out' err'.
      binary_starts w' args' prefix' kwds' p' (Exits d' 0 out' err') \<and>
      d' < real_of_int (effective_timeout w' timeout') \<and>
      snd (run_binary w' args' timeout' prefix' kwds') = Inl UnicodeDecodeError) \<and>
   (\<exists>w' args' timeout' libpath' kwds' p' d' out' err'.
      native_starts w' args' libpath' kwds' p' (Exits d' 0 out' err') \<and>
      d' < real_of_int (effective_timeout w' timeout') \<and>
      snd (run_native_binary w' args' timeout' libpath' kwds') = Inl UnicodeDecodeError)"
proof (intro conjI impI)
  assume a: "binary_starts w args prefix kwds p (Exits d 0 out err) \<and>
      d < real_of_int (effective_timeout w timeout)"
  then have r: "snd (run_binary w args timeout prefix kwds) = returned out err"
    using run_binary_started [of w args prefix kwds p "Exits d 0 out err" timeout]
    by (simp add: supervised_success)
  then show "snd (run_binary w args timeout prefix kwds) =
      (case decode Strict out of
         Inl e \<Rightarrow> Inl e
       | Inr so \<Rightarrow> (case decode Strict err of Inl e \<Rightarrow> Inl e | Inr se \<Rightarrow> Inr (so, se)))"
    by (simp add: returned_def)
  assume "decode Strict out = Inl e \<or> decode Strict err = Inl e"
  with r show "snd (run_binary w args timeout prefix kwds) = Inl UnicodeDecodeError"
    by (simp add: returned_invalid)
next
  assume a: "native_starts w args libpath kwds p (Exits d 0 out err) \<and>
      d < real_of_int (effective_timeout w timeout)"
  then have r: "snd (run_native_binary w args timeout libpath kwds) = returned out err"
    using run_native_started [of w args libpath kwds p "Exits d 0 out err" timeout]
    by (simp add: supervised_success)
  then show "snd (run_native_binary w args timeout libpath kwds) =
      (case decode Strict out of
         Inl e \<Rightarrow> Inl e
       | Inr so \<Rightarrow> (case decode Strict err of Inl e \<Rightarrow> Inl e | Inr se \<Rightarrow> Inr (so, se)))"
    by (simp add: returned_def)
  assume "decode Strict out = Inl e \<or> decode Strict err = Inl e"
  with r show "snd (run_native_binary w args timeout libpath kwds) = Inl UnicodeDecodeError"
    by (simp add: returned_invalid)
next
  let ?l = "Exits 1 0 [0xFF, 0x68] []"
  let ?w = "demo_world installed ?l"
  have "snd (run_binary ?w [''helloworld''] None None no_kwds) = Inl UnicodeDecodeError"
    using run_binary_started [of ?w "[''helloworld'']" None no_kwds 4242 ?l None]
    by (simp add: demo_binary_starts effective_timeout_def demo_default supervised_success
        returned_def decode_strict_examples)
  moreover have "(1 :: real) < real_of_int (effective_timeout ?w None)"
    by (simp add: effective_timeout_def demo_default)
  ultimately show "\<exists>w' args' timeout' prefix' kwds' p' d' out' err'.
      binary_starts w' args' prefix' kwds' p' (Exits d' 0 out' err') \<and>
      d' < real_of_int (effective_timeout w' timeout') \<and>
      snd (run_binary w' args' timeout' prefix' kwds') = Inl UnicodeDecodeError"
    using demo_binary_starts [of ?l "[''helloworld'']" None] by blast
next
  let ?l = "Exits 1 0 [0xFF, 0x68] []"
  let ?w = "demo_world installed ?l"
  have "snd (run_native_binary ?w [''helloworld''] None None no_kwds) = Inl UnicodeDecodeError"
    using run_native_started [of ?w "[''helloworld'']" None no_kwds 4242 ?l None]
    by (simp add: demo_native_starts effective_timeout_def demo_default supervised_success
        returned_def decode_strict_examples)
  moreover have "(1 :: real) < real_of_int (effective_timeout ?w None)"
    by (simp add: effective_timeout_def demo_default)
  ultimately show "\<exists>w' args' timeout' libpath' kwds' p' d' out' err'.
      native_starts w' args' libpath' kwds' p' (Exits d' 0 out' err') \<and>
      d' < real_of_int (effective_timeout w' timeout') \<and>
      snd (run_native_binary w' args' timeout' libpath' kwds') = Inl UnicodeDecodeError"
    using demo_native_starts [of installed ?l "[''helloworld'']" None] by blast
qed

theorem success_path_decodes_strictly_witness:
  "binary_starts (demo_world installed (Exits 1 0 hello [0xC3, 0x28])) [''helloworld''] None
     no_kwds 4242 (Exits 1 0 hello [0xC3, 0x28]) \<and>
   (1 :: real) < real_of_int (effective_timeout (demo_world installed (Exits 1 0 hello [0xC3, 0x28]))
     None) \<and>
   decode Strict [0xC3, 0x28] = Inl UnicodeDecodeError \<and>
   snd (run_binary (demo_world installed (Exits 1 0 hello [0xC3, 0x28])) [''helloworld''] None
     None no_kwds) = Inl UnicodeDecodeError \<and>
   snd (run_native_binary (demo_world installed (Exits 1 0 hello [0xC3, 0x28])) [''helloworld'']
     None None no_kwds) = Inl UnicodeDecodeError"
  using success_path_decodes_strictly [of
      "demo_world installed (Exits 1 0 hello [0xC3, 0x28])" "[''helloworld'']" None no_kwds
      4242 1 hello "[0xC3, 0x28]" None UnicodeDecodeError None]
  by (simp add: demo_binary_starts demo_native_starts effective_timeout_def demo_default
        decode_strict_examples)

text \<open>
  C1, as the specification states it, fails: the target below exits with status zero
  after one second, within the bound of ten, having written the single byte \<open>0x80\<close>
  to its standard output, and the call raises \<open>UnicodeDecodeError\<close> instead of
  returning the captured bytes.
\<close>

theorem success_returns_bytes_counterexample:
  "binary_starts (demo_world installed (Exits 1 0 [0x80] [])) [''helloworld''] None no_kwds 4242
     (Exits 1 0 [0x80] []) \<and>
   native_starts (demo_world installed (Exits 1 0 [0x80] [])) [''helloworld''] None no_kwds 4242
     (Exits 1 0 [0x80] []) \<and>
   (1 :: real) < real_of_int (effective_timeout (demo_world installed (Exits 1 0 [0x80] [])) None) \<and>
   snd (run_binary (demo_world installed (Exits 1 0 [0x80] [])) [''helloworld''] None None
     no_kwds) = Inl UnicodeDecodeError \<and>
   snd (run_native_binary (demo_world installed (Exits 1 0 [0x80] [])) [''helloworld''] None None
     no_kwds) = Inl UnicodeDecodeError"
proof -
  let ?l = "Exits 1 0 [0x80] []"
  let ?w = "demo_world installed ?l"
  have "snd (run_binary ?w [''helloworld''] None None no_kwds) = Inl UnicodeDecodeError"
    using run_binary_started [of ?w "[''helloworld'']" None no_kwds 4242 ?l None]
    by (simp add: demo_binary_starts effective_timeout_def demo_default supervised_success
        returned_def decode_strict_examples)
  moreover
  have "snd (run_native_binary ?w [''helloworld''] None None no_kwds) = Inl UnicodeDecodeError"
    using run_native_started [of ?w "[''helloworld'']" None no_kwds 4242 ?l None]
    by (simp add: demo_native_starts effective_timeout_def demo_default supervised_success
        returned_def decode_strict_examples)
  ultimately show ?thesis
    by (simp add: demo_binary_starts demo_native_starts effective_timeout_def demo_default)
qed

text \<open>
  C1, amended. When the target exits with status zero before the effective timeout and
  both captured streams are valid UTF-8, the call returns the pair of texts that the
  streams decode to, after the wait and after forwarding exactly these two texts to the
  harness's own output.
\<close>

theorem success_returns_decoded_text:
  "(binary_starts w args prefix kwds p (Exits d 0 out err) \<and>
      d < real_of_int (effective_timeout w timeout) \<and>
      decode Strict out = Inr so \<and> decode Strict err = Inr se \<longrightarrow>
      run_binary w args timeout prefix kwds =
        ([Path_exists (loader_path w), Path_exists (libpal_path w),
          Popen (binary_argv w prefix args) (kw_env kwds) (kw_cwd kwds),
          Communicate p (effective_timeout w timeout), Stdout_write so, Stderr_write se],
         Inr (so, se))) \<and>
   (native_starts w args libpath kwds p (Exits d 0 out err) \<and>
      d < real_of_int (effective_timeout w timeout) \<and>
      decode Strict out = Inr so \<and> decode Strict err = Inr se \<longrightarrow>
      run_native_binary w args timeout libpath kwds =
        ([Popen args (Some (native_env w libpath)) (kw_cwd kwds),
          Communicate p (effective_timeout w timeout), Stdout_write so, Stderr_write se],
         Inr (so, se)))"
proof (intro conjI impI)
  assume a: "binary_starts w args prefix kwds p (Exits d 0 out err) \<and>
      d < real_of_int (effective_timeout w timeout) \<and>
      decode Strict out = Inr so \<and> decode Strict err = Inr se"
  then have "shown out = so" "shown err = se" "returned out err = Inr (so, se)"
    by (simp_all add: shown_strict returned_def)
  with a show "run_binary w args timeout prefix kwds =
      ([Path_exists (loader_path w), Path_exists (libpal_path w),
        Popen (binary_argv w prefix args) (kw_env kwds) (kw_cwd kwds),
        Communicate p (effective_timeout w timeout), Stdout_write so, Stderr_write se],
       Inr (so, se))"
    using run_binary_started [of w args prefix kwds p "Exits d 0 out err" timeout]
    by (simp add: supervised_success)
next
  assume a: "native_starts w args libpath kwds p (Exits d 0 out err) \<and>
      d < real_of_int (effective_timeout w timeout) \<and>
      decode Strict out = Inr so \<and> decode Strict err = Inr se"
  then have "shown out = so" "shown err = se" "returned out err = Inr (so, se)"
    by (simp_all add: shown_strict returned_def)
  with a show "run_native_binary w args timeout libpath kwds =
      ([Popen args (Some (native_env w libpath)) (kw_cwd kwds),
        Communicate p (effective_timeout w timeout), Stdout_write so, Stderr_write se],
       Inr (so, se))"
    using run_native_started [of w args libpath kwds p "Exits d 0 out err" timeout]
    by (simp add: supervised_success)
qed

theorem success_returns_decoded_text_witness:
  "run_binary (demo_world installed (Exits 1 0 hello [0xC3, 0xA9])) [''helloworld''] None None
       no_kwds =
     ([Path_exists ''/usr/lib/gramine/direct/loader'',
       Path_exists ''/usr/lib/gramine/direct/libpal.so'',
       Popen [''/usr/lib/gramine/direct/loader'', ''/usr/lib/gramine/direct/libpal.so'',
              ''init'', ''helloworld''] None None,
       Communicate 4242 10,
       Stdout_write [0x68, 0x65, 0x6C, 0x6C, 0x6F, 0x0A], Stderr_write [0xE9]],
      Inr ([0x68, 0x65, 0x6C, 0x6C, 0x6F, 0x0A], [0xE9])) \<and>
   run_native_binary (demo_world installed (Exits 1 0 hello [0xC3, 0xA9])) [''helloworld''] None
       None no_kwds =
     ([Popen [''helloworld''] (Some [(''PATH'', ''/usr/bin'')]) None,
       Communicate 4242 10,
       Stdout_write [0x68, 0x65, 0x6C, 0x6C, 0x6F, 0x0A], Stderr_write [0xE9]],
      Inr ([0x68, 0x65, 0x6C, 0x6C, 0x6F, 0x0A], [0xE9]))"
  using success_returns_decoded_text [of
      "demo_world installed (Exits 1 0 hello [0xC3, 0xA9])" "[''helloworld'']" None no_kwds
      4242 1 hello "[0xC3, 0xA9]" None "[0x68, 0x65, 0x6C, 0x6C, 0x6F, 0x0A]" "[0xE9]" None]
  by (simp add: demo_binary_starts demo_native_starts effective_timeout_def demo_default
        decode_strict_examples demo_paths binary_argv_def native_env_def)
     (simp add: demo_world_def no_kwds_def)

end
